theory Spec2Isabelle
  imports Main "HOL-Library.Sublist"
begin

section \<open>Staleness detector: data model\<close>

text \<open>
  The detector is a Node script. Everything it reads from outside (the directory tree
  under \<^verbatim>\<open>./repositories\<close>, the parsed declaration files, the answers of the two
  hosting-service calls, two environment flags and Node's \<^verbatim>\<open>path.join\<close>) is gathered
  in a record \<open>world\<close>; everything it does to the outside (console lines, service calls,
  the timer) is recorded as a list of events. JavaScript strings are modelled as
  \<^typ>\<open>string\<close>, JavaScript numbers that only count as \<^typ>\<open>int\<close>.
\<close>

datatype error = Error string

text \<open>
  An element of \<^verbatim>\<open>response.data\<close> of \<^verbatim>\<open>repos.listCommits\<close>, with the three
  properties the script reads: \<^verbatim>\<open>sha\<close>, \<^verbatim>\<open>commit.committer.date\<close> and
  \<^verbatim>\<open>commit.message\<close>.
\<close>

record latest_commit =
  sha :: string
  date :: string
  message :: string

text \<open>An element of \<^verbatim>\<open>comparison.data.files\<close> of \<^verbatim>\<open>repos.compareCommits\<close>.\<close>

record file_change =
  filename :: string
  status :: string
  additions :: int
  deletions :: int
  patch :: string

text \<open>The object returned by \<^verbatim>\<open>getFileChanges\<close>.\<close>

record changes =
  totalChanges :: nat
  relevantChanges :: nat
  files :: "file_change list"

text \<open>
  An element of the \<^verbatim>\<open>files\<close> array of a declaration: a string, an object whose
  \<^verbatim>\<open>source\<close> is a string or is missing, \<^verbatim>\<open>null\<close>, or any other JSON value
  (number, boolean, array), which has no \<^verbatim>\<open>source\<close> property.
\<close>

datatype file_entry =
    FileString string
  | FileObject "string option"
  | FileNull
  | FileOther

text \<open>
  A parsed \<^verbatim>\<open>metadata.json\<close>. \<open>path\<close> is \<open>None\<close> when the property is missing;
  \<open>tracked\<close> is the \<^verbatim>\<open>files\<close> property, \<open>None\<close> when it is not an array.
\<close>

record metadata =
  name :: string
  owner :: string
  repo :: string
  commit :: string
  path :: "string option"
  tracked :: "file_entry list option"

text \<open>
  The tree below the scanned root: \<^verbatim>\<open>readdirSync\<close> either throws or lists entries,
  each a directory or something else.
\<close>

datatype dir = Unreadable error | Entries "dirent list"
  and dirent = FileEnt string | DirEnt string dir

text \<open>Console lines, one constructor for each message template of the script.\<close>

datatype line =
    Starting
  | Found nat
  | Checking string string string
  | RepositoryUrl string string
  | CurrentCommit string
  | PathLine string
  | CouldNotFetch
  | LatestCommit string
  | LatestCommitDate string
  | LatestCommitMessage string
  | UpToDateLine
  | UpToDateNoRelevantLine
  | UpdateAvailableLine
  | CompareUrl string string string string
  | TotalRepositoryChanges nat
  | RelevantFileChanges nat
  | ChangedFilesHeader
  | ChangedFileLine string string int int
  | Blank
  | SummaryHeader
  | SummaryChecked int
  | SummaryUpdates int
  | SummaryErrors int
  | SummaryUpToDate int
  | HaveUpdates int
  | AllUpToDate
  | ErrFetchingCommits string string string
  | ErrComparingCommits string
  | ErrProcessing string string
  | ErrObject error

datatype event =
    ConsoleLog line
  | ConsoleError line
  | ListCommitsCall string string string
  | CompareCommitsCall string string string string
  | SetTimeout nat

record world =
  path_join :: "string \<Rightarrow> string \<Rightarrow> string"
  root :: dir
  readMetadata :: "string \<Rightarrow> error + metadata"
  listCommits :: "string \<Rightarrow> string \<Rightarrow> string \<Rightarrow> error + latest_commit list"
  compareCommits :: "string \<Rightarrow> string \<Rightarrow> string \<Rightarrow> string \<Rightarrow> error + file_change list"
  DETAILED_OUTPUT :: bool
  ONLY_SHOW_UPDATES :: bool

text \<open>
  \<open>readMetadata w f\<close> stands for \<^verbatim>\<open>JSON.parse(fs.readFileSync(f, 'utf8'))\<close>: \<open>Inl\<close>
  when reading or parsing throws (or the document is \<^verbatim>\<open>null\<close>, on which the first
  property access throws). \<open>listCommits\<close> and \<open>compareCommits\<close> are \<open>Inl\<close> when the
  awaited call rejects or its response cannot be used (any exception inside the
  \<^verbatim>\<open>try\<close> of the calling function).
\<close>

section \<open>Staleness detector: functions\<close>

subsection \<open>String helpers of JavaScript\<close>

text \<open>\<^verbatim>\<open>s.includes(t)\<close>: \<open>t\<close> occurs in \<open>s\<close> at some position.\<close>

fun includes_str :: "string \<Rightarrow> string \<Rightarrow> bool" where
  "includes_str [] t = (t = [])"
| "includes_str (c # s) t = (prefix t (c # s) \<or> includes_str s t)"

text \<open>\<^verbatim>\<open>s.startsWith('/')\<close> and \<^verbatim>\<open>s.slice(1)\<close>.\<close>

definition startsWith_slash :: "string \<Rightarrow> bool" where
  "startsWith_slash s = (case s of [] \<Rightarrow> False | c # _ \<Rightarrow> c = CHR ''/'')"

definition slice1 :: "string \<Rightarrow> string" where
  "slice1 s = drop 1 s"

text \<open>\<^verbatim>\<open>s.split('\n')[0]\<close>.\<close>

definition first_line :: "string \<Rightarrow> string" where
  "first_line s = takeWhile (\<lambda>c. c \<noteq> CHR 10) s"

subsection \<open>getLatestCommit\<close>

text \<open>
  Returns the first element of the answer (\<open>None\<close> for \<^verbatim>\<open>undefined\<close> and for
  \<^verbatim>\<open>null\<close>, both falsy) together with the events it caused.
\<close>

definition getLatestCommit ::
  "world \<Rightarrow> string \<Rightarrow> string \<Rightarrow> string option \<Rightarrow> latest_commit option \<times> event list" where
  "getLatestCommit w ownr rpo filePathArg =
     (let filePath = (case filePathArg of None \<Rightarrow> [] | Some p \<Rightarrow> p) in
      case listCommits w ownr rpo filePath of
        Inr response_data \<Rightarrow>
          (case response_data of [] \<Rightarrow> None | c # _ \<Rightarrow> Some c,
           [ListCommitsCall ownr rpo filePath])
      | Inl (Error msg) \<Rightarrow>
          (None,
           [ListCommitsCall ownr rpo filePath,
            ConsoleError (ErrFetchingCommits ownr rpo msg)]))"

subsection \<open>getFileChanges\<close>

text \<open>The predicate given to \<^verbatim>\<open>comparison.data.files.filter\<close>.\<close>

definition isRelevant :: "string list \<Rightarrow> file_change \<Rightarrow> bool" where
  "isRelevant filePaths file =
     list_ex (\<lambda>trackPath.
        let normalizedTrackPath =
              (if startsWith_slash trackPath then slice1 trackPath else trackPath)
        in includes_str (filename file) normalizedTrackPath \<or>
           includes_str normalizedTrackPath (filename file)) filePaths"

definition getFileChanges ::
  "world \<Rightarrow> string \<Rightarrow> string \<Rightarrow> string \<Rightarrow> string \<Rightarrow> string list
     \<Rightarrow> changes option \<times> event list" where
  "getFileChanges w ownr rpo oldCommit newCommit filePaths =
     (case compareCommits w ownr rpo oldCommit newCommit of
        Inr comparison_files \<Rightarrow>
          (let relevantFiles = filter (isRelevant filePaths) comparison_files in
           (Some \<lparr> totalChanges = length comparison_files,
                   relevantChanges = length relevantFiles,
                   files = map (\<lambda>file. \<lparr> filename = filename file, status = status file,
                                          additions = additions file,
                                          deletions = deletions file,
                                          patch = patch file \<rparr>) relevantFiles \<rparr>,
            [CompareCommitsCall ownr rpo oldCommit newCommit]))
      | Inl (Error msg) \<Rightarrow>
          (None,
           [CompareCommitsCall ownr rpo oldCommit newCommit,
            ConsoleError (ErrComparingCommits msg)]))"

subsection \<open>findMetadataFiles\<close>

text \<open>
  \<open>searchRecursively\<close> pushes onto the shared array \<open>metadataFiles\<close>, here the
  accumulator; an exception of \<^verbatim>\<open>readdirSync\<close> leaves through every enclosing call.
  \<open>for_entries\<close> is its \<^verbatim>\<open>for (const entry of entries)\<close> loop.
\<close>

fun searchRecursively ::
    "(string \<Rightarrow> string \<Rightarrow> string) \<Rightarrow> string \<Rightarrow> dir \<Rightarrow> string list \<Rightarrow> error + string list"
  and for_entries ::
    "(string \<Rightarrow> string \<Rightarrow> string) \<Rightarrow> string \<Rightarrow> dirent list \<Rightarrow> string list \<Rightarrow> error + string list"
  where
  "searchRecursively pj currentDir (Unreadable err) metadataFiles = Inl err"
| "searchRecursively pj currentDir (Entries entries) metadataFiles =
     for_entries pj currentDir entries metadataFiles"
| "for_entries pj currentDir [] metadataFiles = Inr metadataFiles"
| "for_entries pj currentDir (DirEnt nm d # entries) metadataFiles =
     (case searchRecursively pj (pj currentDir nm) d metadataFiles of
        Inl err \<Rightarrow> Inl err
      | Inr metadataFiles' \<Rightarrow> for_entries pj currentDir entries metadataFiles')"
| "for_entries pj currentDir (FileEnt nm # entries) metadataFiles =
     for_entries pj currentDir entries
       (if nm = ''metadata.json'' then metadataFiles @ [pj currentDir nm] else metadataFiles)"

definition findMetadataFiles :: "world \<Rightarrow> string \<Rightarrow> error + string list" where
  "findMetadataFiles w dirname = searchRecursively (path_join w) dirname (root w) []"

subsection \<open>The tracked paths of a declaration\<close>

text \<open>\<^verbatim>\<open>metadata.path || '/'\<close>: a missing and an empty path are both falsy.\<close>

definition path_or_slash :: "metadata \<Rightarrow> string" where
  "path_or_slash m = (case path m of None \<Rightarrow> ''/'' | Some p \<Rightarrow> if p = [] then ''/'' else p)"

text \<open>\<^verbatim>\<open>.replace(/\\/g, '/')\<close>: every backslash (code 92) becomes a slash.\<close>

definition replace_backslashes :: "string \<Rightarrow> string" where
  "replace_backslashes s = map (\<lambda>c. if c = CHR 0x5C then CHR ''/'' else c) s"

text \<open>
  The function given to \<^verbatim>\<open>metadata.files.map\<close>. On \<^verbatim>\<open>null\<close> the test
  \<^verbatim>\<open>file.source\<close> throws a TypeError.
\<close>

fun file_to_path :: "world \<Rightarrow> metadata \<Rightarrow> file_entry \<Rightarrow> error + string" where
  "file_to_path w m (FileString file) =
     Inr (replace_backslashes (path_join w (path_or_slash m) file))"
| "file_to_path w m (FileObject None) = Inr []"
| "file_to_path w m (FileObject (Some src)) =
     (if src \<noteq> [] then Inr (replace_backslashes (path_join w (path_or_slash m) src))
      else Inr [])"
| "file_to_path w m FileNull =
     Inl (Error ''Cannot read properties of null (reading 'source')'')"
| "file_to_path w m FileOther = Inr []"

text \<open>\<^verbatim>\<open>Array.prototype.map\<close> with a callback that may throw.\<close>

fun map_throwing :: "('a \<Rightarrow> error + 'b) \<Rightarrow> 'a list \<Rightarrow> error + 'b list" where
  "map_throwing f [] = Inr []"
| "map_throwing f (x # xs) =
     (case f x of
        Inl err \<Rightarrow> Inl err
      | Inr y \<Rightarrow> (case map_throwing f xs of Inl err \<Rightarrow> Inl err | Inr ys \<Rightarrow> Inr (y # ys)))"

definition trackedFilePaths :: "world \<Rightarrow> metadata \<Rightarrow> error + string list" where
  "trackedFilePaths w m =
     (case tracked m of
        None \<Rightarrow> Inr []
      | Some fs \<Rightarrow>
          (case map_throwing (file_to_path w m) fs of
             Inl err \<Rightarrow> Inl err
           | Inr ps \<Rightarrow> Inr (filter (\<lambda>p. p \<noteq> []) ps)))"

subsection \<open>The loop of main\<close>

text \<open>The three counters of \<open>main\<close> and everything done to the outside so far.\<close>

record state =
  totalChecked :: int
  updatesAvailable :: int
  errors :: int
  events :: "event list"

definition emit :: "event list \<Rightarrow> state \<Rightarrow> state" where
  "emit evs s = s\<lparr> events := events s @ evs \<rparr>"

definition console_log :: "line list \<Rightarrow> state \<Rightarrow> state" where
  "console_log ls s = emit (map ConsoleLog ls) s"

text \<open>\<^verbatim>\<open>await new Promise(resolve => setTimeout(resolve, 100))\<close>\<close>

definition delay :: "state \<Rightarrow> state" where
  "delay s = emit [SetTimeout 100] s"

text \<open>The \<^verbatim>\<open>catch\<close> block of the loop body.\<close>

definition catch_block :: "string \<Rightarrow> error \<Rightarrow> state \<Rightarrow> state" where
  "catch_block metadataFile err s =
     (case err of Error msg \<Rightarrow>
        (emit [ConsoleError (ErrProcessing metadataFile msg)] s)\<lparr> errors := errors s + 1 \<rparr>)"

text \<open>The lines printed under \<^verbatim>\<open>detailedOutput && changes\<close>.\<close>

definition detailed_lines :: "changes \<Rightarrow> line list" where
  "detailed_lines ch =
     [TotalRepositoryChanges (totalChanges ch), RelevantFileChanges (relevantChanges ch)] @
     (if length (files ch) > 0
      then ChangedFilesHeader #
           map (\<lambda>file. ChangedFileLine (filename file) (status file)
                                        (additions file) (deletions file)) (files ch)
      else [])"

text \<open>
  The \<^verbatim>\<open>else\<close> branch of the revision comparison, from the declaration of
  \<open>hasRelevantChanges\<close> on, once \<open>filePaths\<close> is built.
\<close>

definition check_changes ::
  "world \<Rightarrow> metadata \<Rightarrow> latest_commit \<Rightarrow> string list \<Rightarrow> state \<Rightarrow> state" where
  "check_changes w metadata latestCommit filePaths s =
     (let onlyShowUpdates = ONLY_SHOW_UPDATES w;
          (changes, evs) =
             (if length filePaths > 0
              then getFileChanges w (owner metadata) (repo metadata) (commit metadata)
                     (sha latestCommit) filePaths
              else (None, []));
          hasRelevantChanges =
             (if length filePaths > 0
              then (case changes of None \<Rightarrow> False | Some ch \<Rightarrow> relevantChanges ch > 0)
              else True);
          s1 = emit evs s
      in if \<not> hasRelevantChanges
         then (if \<not> onlyShowUpdates then console_log [UpToDateNoRelevantLine] s1 else s1)
         else
          (let s2 = (if onlyShowUpdates
                     then console_log
                            [Checking (name metadata) (owner metadata) (repo metadata),
                             RepositoryUrl (owner metadata) (repo metadata),
                             CurrentCommit (commit metadata),
                             LatestCommit (sha latestCommit),
                             LatestCommitDate (date latestCommit),
                             LatestCommitMessage (first_line (message latestCommit))] s1
                     else s1);
               s3 = console_log
                      [UpdateAvailableLine,
                       CompareUrl (owner metadata) (repo metadata) (commit metadata)
                         (sha latestCommit)] s2;
               s4 = s3\<lparr> updatesAvailable := updatesAvailable s3 + 1 \<rparr>;
               s5 = (case changes of
                       None \<Rightarrow> s4
                     | Some ch \<Rightarrow>
                         if DETAILED_OUTPUT w then console_log (detailed_lines ch) s4 else s4)
           in console_log [Blank] s5))"

text \<open>One iteration of \<^verbatim>\<open>for (const metadataFile of metadataFiles)\<close>.\<close>

definition loop_body :: "world \<Rightarrow> string \<Rightarrow> state \<Rightarrow> state" where
  "loop_body w metadataFile s0 =
     (let s1 = s0\<lparr> totalChecked := totalChecked s0 + 1 \<rparr> in
      case readMetadata w metadataFile of
        Inl err \<Rightarrow> catch_block metadataFile err s1
      | Inr metadata \<Rightarrow>
          (let onlyShowUpdates = ONLY_SHOW_UPDATES w;
               shouldShowBasicInfo = \<not> onlyShowUpdates;
               s2 = (if shouldShowBasicInfo
                     then console_log
                            [Checking (name metadata) (owner metadata) (repo metadata),
                             RepositoryUrl (owner metadata) (repo metadata),
                             CurrentCommit (commit metadata),
                             PathLine (path_or_slash metadata)] s1
                     else s1);
               (latestCommit, evs) =
                  getLatestCommit w (owner metadata) (repo metadata) (path metadata);
               s3 = emit evs s2
           in case latestCommit of
                None \<Rightarrow>
                  (let s4 = (if shouldShowBasicInfo then console_log [CouldNotFetch] s3
                             else s3)
                   in s4\<lparr> errors := errors s4 + 1 \<rparr>)
              | Some lc \<Rightarrow>
                  (let s4 = (if shouldShowBasicInfo
                             then console_log
                                    [LatestCommit (sha lc), LatestCommitDate (date lc),
                                     LatestCommitMessage (first_line (message lc))] s3
                             else s3)
                   in if commit metadata = sha lc
                      then delay (if \<not> onlyShowUpdates then console_log [UpToDateLine] s4
                                  else s4)
                      else (case trackedFilePaths w metadata of
                              Inl err \<Rightarrow> catch_block metadataFile err s4
                            | Inr filePaths \<Rightarrow>
                                delay (check_changes w metadata lc filePaths s4)))))"

fun main_loop :: "world \<Rightarrow> string list \<Rightarrow> state \<Rightarrow> state" where
  "main_loop w [] s = s"
| "main_loop w (metadataFile # metadataFiles) s =
     main_loop w metadataFiles (loop_body w metadataFile s)"

subsection \<open>main and the script\<close>

text \<open>
  How the promise of \<open>main\<close> ends: rejected by an exception, cut short by
  \<^verbatim>\<open>process.exit\<close>, or resolved.
\<close>

datatype ending = Rejected error | ProcessExit int | Resolved

definition main :: "world \<Rightarrow> state \<times> ending" where
  "main w =
     (let s0 = \<lparr> totalChecked = 0, updatesAvailable = 0, errors = 0,
                 events = [ConsoleLog Starting] \<rparr> in
      case findMetadataFiles w ''./repositories'' of
        Inl err \<Rightarrow> (s0, Rejected err)
      | Inr metadataFiles \<Rightarrow>
          (let s1 = console_log [Found (length metadataFiles)] s0;
               s2 = main_loop w metadataFiles s1;
               s3 = console_log
                      [SummaryHeader,
                       SummaryChecked (totalChecked s2),
                       SummaryUpdates (updatesAvailable s2),
                       SummaryErrors (errors s2),
                       SummaryUpToDate (totalChecked s2 - updatesAvailable s2 - errors s2)]
                      s2
           in if updatesAvailable s3 > 0
              then (console_log [HaveUpdates (updatesAvailable s3)] s3, ProcessExit 0)
              else (console_log [AllUpToDate] s3, Resolved)))"

text \<open>
  The last statement of the script, \<^verbatim>\<open>main().catch(console.error)\<close>, and the exit
  status of the process: the argument of \<^verbatim>\<open>process.exit\<close> if it was called, and
  otherwise 0, since a handled rejection leaves the status of Node untouched.
\<close>

definition script :: "world \<Rightarrow> event list \<times> int" where
  "script w =
     (case main w of
        (s, Rejected err) \<Rightarrow> (events s @ [ConsoleError (ErrObject err)], 0)
      | (s, ProcessExit code) \<Rightarrow> (events s, code)
      | (s, Resolved) \<Rightarrow> (events s, 0))"

subsection \<open>Verdicts\<close>

text \<open>
  The script keeps no verdict value: a declaration's verdict is which counter its
  iteration moved. \<open>updatesAvailable\<close> counts the update-available verdicts,
  \<open>errors\<close> the error verdicts, and the summary takes every other checked declaration
  as up to date.
\<close>

datatype verdict = UpToDate | UpdateAvailable | ErrorVerdict

definition verdict :: "state \<Rightarrow> state \<Rightarrow> verdict" where
  "verdict s s' =
     (if updatesAvailable s' > updatesAvailable s then UpdateAvailable
      else if errors s' > errors s then ErrorVerdict
      else UpToDate)"

text \<open>The events added between two states.\<close>

definition emitted :: "state \<Rightarrow> state \<Rightarrow> event list" where
  "emitted s s' = drop (length (events s)) (events s')"

definition is_compare_call :: "event \<Rightarrow> bool" where
  "is_compare_call e = (case e of CompareCommitsCall _ _ _ _ \<Rightarrow> True | _ \<Rightarrow> False)"

definition is_delay :: "event \<Rightarrow> bool" where
  "is_delay e = (case e of SetTimeout _ \<Rightarrow> True | _ \<Rightarrow> False)"

text \<open>
  The verdict of a declaration file on its own: the iteration run from the counters at
  zero. The counters only ever move by the same amounts whatever the state before
  (lemma \<open>verdict_file_verdict\<close>).
\<close>

definition file_verdict :: "world \<Rightarrow> string \<Rightarrow> verdict" where
  "file_verdict w f =
     verdict \<lparr> totalChecked = 0, updatesAvailable = 0, errors = 0, events = [] \<rparr>
       (loop_body w f \<lparr> totalChecked = 0, updatesAvailable = 0, errors = 0, events = [] \<rparr>)"

subsection \<open>The matching rule in the words of the specification\<close>

text \<open>
  These two definitions follow the specification ("a substring match, in either
  direction, of a normalized tracked path, leading path separator stripped before
  comparison"), not the script; \<open>sublist xs ys\<close> says that \<open>xs\<close> is a contiguous part
  of \<open>ys\<close>. They are compared with \<open>isRelevant\<close> below.
\<close>

definition spec_strip_leading_slash :: "string \<Rightarrow> string" where
  "spec_strip_leading_slash p =
     (case p of [] \<Rightarrow> [] | c # r \<Rightarrow> if c = CHR ''/'' then r else p)"

definition spec_relevant :: "string list \<Rightarrow> file_change \<Rightarrow> bool" where
  "spec_relevant filePaths file =
     (\<exists>trackPath \<in> set filePaths.
        sublist (spec_strip_leading_slash trackPath) (filename file) \<or>
        sublist (filename file) (spec_strip_leading_slash trackPath))"

section \<open>Category timestamp generator\<close>

subsection \<open>JavaScript values and the operator +\<close>

text \<open>
  A JavaScript number whose value is an integer, or one of the three values that are
  not finite. \<open>Finite n\<close> stands for the double of value \<open>n\<close>, so only those \<open>n\<close>
  occur that are doubles: every \<open>n\<close> below $2^{53}$ in magnitude, and beyond that the
  multiples of the spacing of the doubles around \<open>n\<close>.
\<close>

datatype js_number = Finite int | PosInfinity | NegInfinity | NaN

text \<open>
  What a property read from a parsed JSON document can be, arrays and objects left
  out: a number, a string, a boolean, \<^verbatim>\<open>null\<close>, or \<^verbatim>\<open>undefined\<close> when the
  property is missing.
\<close>

datatype js_value =
    JsNumber js_number
  | JsString string
  | JsBoolean bool
  | JsNull
  | JsUndefined

text \<open>
  The spacing of the doubles around a magnitude \<open>a\<close> of at least $2^{53}$
  (9007199254740992): doubles carry 53 significant bits.
\<close>

function quantum :: "int \<Rightarrow> int" where
  "quantum a = (if a < 9007199254740992 then 1 else 2 * quantum (a div 2))"
  by pat_completeness auto
termination
  by (relation "measure nat") auto

declare quantum.simps [simp del]

text \<open>
  The double nearest to an integer, ties to the even significand, and infinity from
  $2^{1024}$ on: the rounding that the addition of two doubles applies to their exact
  sum.
\<close>

definition round_to_double :: "int \<Rightarrow> js_number" where
  "round_to_double n =
     (let a = \<bar>n\<bar> in
      if a < 9007199254740992 then Finite n
      else
       (let q = quantum a;
            lo = (a div q) * q;
            r = a mod q;
            rounded = (if 2 * r < q then lo
                       else if q < 2 * r then lo + q
                       else if even (a div q) then lo else lo + q)
        in if 2 ^ 1024 \<le> rounded then (if n < 0 then NegInfinity else PosInfinity)
           else Finite (if n < 0 then - rounded else rounded)))"

text \<open>Number addition.\<close>

fun number_add :: "js_number \<Rightarrow> js_number \<Rightarrow> js_number" where
  "number_add NaN y = NaN"
| "number_add x NaN = NaN"
| "number_add PosInfinity NegInfinity = NaN"
| "number_add NegInfinity PosInfinity = NaN"
| "number_add PosInfinity y = PosInfinity"
| "number_add x PosInfinity = PosInfinity"
| "number_add NegInfinity y = NegInfinity"
| "number_add x NegInfinity = NegInfinity"
| "number_add (Finite a) (Finite b) = round_to_double (a + b)"

text \<open>
  \<^verbatim>\<open>ToNumber\<close> of a value that is not a string (\<open>None\<close> on a string), and
  \<^verbatim>\<open>ToString\<close>, with the host's printing of numbers as a parameter.
\<close>

fun to_number :: "js_value \<Rightarrow> js_number option" where
  "to_number (JsNumber x) = Some x"
| "to_number (JsString s) = None"
| "to_number (JsBoolean b) = Some (Finite (if b then 1 else 0))"
| "to_number JsNull = Some (Finite 0)"
| "to_number JsUndefined = Some NaN"

fun to_string :: "(js_number \<Rightarrow> string) \<Rightarrow> js_value \<Rightarrow> string" where
  "to_string numberToString (JsNumber x) = numberToString x"
| "to_string numberToString (JsString s) = s"
| "to_string numberToString (JsBoolean b) = (if b then ''true'' else ''false'')"
| "to_string numberToString JsNull = ''null''"
| "to_string numberToString JsUndefined = ''undefined''"

text \<open>
  The operator \<^verbatim>\<open>+\<close>: concatenation of the two strings when either operand is a
  string, and addition of the two numbers otherwise.
\<close>

definition js_plus :: "(js_number \<Rightarrow> string) \<Rightarrow> js_value \<Rightarrow> js_value \<Rightarrow> js_value" where
  "js_plus numberToString l r =
     (case (to_number l, to_number r) of
        (Some x, Some y) \<Rightarrow> JsNumber (number_add x y)
      | _ \<Rightarrow> JsString (to_string numberToString l @ to_string numberToString r))"

text \<open>The integer a count stands for, when it is a finite number.\<close>

definition count_value :: "js_value \<Rightarrow> int" where
  "count_value v = (case v of JsNumber (Finite n) \<Rightarrow> n | _ \<Rightarrow> 0)"

definition is_count :: "js_value \<Rightarrow> bool" where
  "is_count v = (case v of JsNumber (Finite n) \<Rightarrow> 0 \<le> n | _ \<Rightarrow> False)"

subsection \<open>main of the generator\<close>

text \<open>
  An element of the array returned by \<open>readCategoryFiles\<close> (fields \<^verbatim>\<open>name\<close>,
  \<^verbatim>\<open>slug\<close>, \<^verbatim>\<open>count\<close>, \<^verbatim>\<open>filePath\<close>), an element of
  \<open>categoriesWithTimestamps\<close> (fields \<^verbatim>\<open>name\<close>, \<^verbatim>\<open>slug\<close>, \<^verbatim>\<open>count\<close>,
  \<^verbatim>\<open>lastUpdated\<close>), and the object written to \<^verbatim>\<open>categories.json\<close>. The field
  names carry a suffix because \<open>name\<close> is taken by the declarations above. The count
  is \<^verbatim>\<open>categoryData.count\<close> as parsed, which nothing validates.
\<close>

record category =
  name_cat :: string
  slug_cat :: string
  count_cat :: js_value
  filePath :: string

record category_with_timestamp =
  name_ts :: string
  slug_ts :: string
  count_ts :: js_value
  lastUpdated :: js_number

record categories_data =
  totalCategories :: nat
  totalApps :: js_value
  categories :: "category_with_timestamp list"

text \<open>
  \<^verbatim>\<open>Array.prototype.sort(compareFn)\<close>: a stable sort, here by insertion; \<open>x\<close> goes
  before \<open>y\<close> when \<open>compareFn x y\<close> is not positive.
\<close>

fun insert_sorted :: "('a \<Rightarrow> 'a \<Rightarrow> int) \<Rightarrow> 'a \<Rightarrow> 'a list \<Rightarrow> 'a list" where
  "insert_sorted compareFn x [] = [x]"
| "insert_sorted compareFn x (y # ys) =
     (if compareFn x y \<le> 0 then x # y # ys else y # insert_sorted compareFn x ys)"

definition array_sort :: "('a \<Rightarrow> 'a \<Rightarrow> int) \<Rightarrow> 'a list \<Rightarrow> 'a list" where
  "array_sort compareFn xs = foldr (insert_sorted compareFn) xs []"

text \<open>
  What ECMAScript asks of a comparison function for the order of the result to be
  defined: any two elements are comparable, and the comparison is transitive.
  \<^verbatim>\<open>String.prototype.localeCompare\<close> is one.
\<close>

definition consistent_comparator :: "('a \<Rightarrow> 'a \<Rightarrow> int) \<Rightarrow> bool" where
  "consistent_comparator cmp \<longleftrightarrow>
     (\<forall>a b. cmp a b \<le> 0 \<or> cmp b a \<le> 0) \<and>
     (\<forall>a b c. cmp a b \<le> 0 \<and> cmp b c \<le> 0 \<longrightarrow> cmp a c \<le> 0)"

text \<open>
  \<open>main\<close> of the generator, from the result \<open>cats\<close> of \<open>readCategoryFiles\<close> on. The
  collation \<open>localeCompare\<close> of the host, its printing of numbers and
  \<open>getLastCommitTimestampForCategoryFile\<close> (which asks git and the clock, and returns
  a number on every path) are parameters. The result is the object given to
  \<^verbatim>\<open>writeFileSync\<close>, \<open>None\<close> when \<open>main\<close> returns early and writes nothing.
\<close>

definition main_categories ::
  "(string \<Rightarrow> string \<Rightarrow> int) \<Rightarrow> (js_number \<Rightarrow> string) \<Rightarrow> (string \<Rightarrow> js_number)
     \<Rightarrow> category list \<Rightarrow> categories_data option" where
  "main_categories localeCompare numberToString getLastCommitTimestampForCategoryFile cats =
     (if length cats = 0 then None
      else
       (let pushed = map (\<lambda>category.
                        \<lparr> name_ts = name_cat category, slug_ts = slug_cat category,
                          count_ts = count_cat category,
                          lastUpdated =
                            getLastCommitTimestampForCategoryFile (slug_cat category) \<rparr>) cats;
            categoriesWithTimestamps =
              array_sort (\<lambda>a b. localeCompare (name_ts a) (name_ts b)) pushed
        in Some \<lparr> totalCategories = length categoriesWithTimestamps,
                  totalApps = foldl (\<lambda>sum cat. js_plus numberToString sum (count_ts cat))
                                (JsNumber (Finite 0)) categoriesWithTimestamps,
                  categories = categoriesWithTimestamps \<rparr>))"

section \<open>Example runs\<close>

text \<open>
  One declaration \<^verbatim>\<open>repositories/app/metadata.json\<close> with recorded revision
  \<open>recorded\<close> and \<^verbatim>\<open>files\<close> property \<open>fs\<close>; the service answers \<open>latest\<close> to the
  revision query and \<open>diff\<close> to the comparison. \<open>example_join\<close> is what Node's
  \<^verbatim>\<open>path.join\<close> returns on the arguments that occur in these runs.
\<close>

definition example_join :: "string \<Rightarrow> string \<Rightarrow> string" where
  "example_join a b =
     (let a' = (if take 2 a = ''./'' then drop 2 a else a)
      in if a' = ''/'' then a' @ b else a' @ ''/'' @ b)"

definition example_file :: string where
  "example_file = ''repositories/app/metadata.json''"

definition example_metadata :: "string \<Rightarrow> file_entry list option \<Rightarrow> metadata" where
  "example_metadata recorded fs =
     \<lparr> name = ''app'', owner = ''octo'', repo = ''app'', commit = recorded, path = None,
       tracked = fs \<rparr>"

definition example_commit :: "string \<Rightarrow> latest_commit" where
  "example_commit h = \<lparr> sha = h, date = ''2025-01-01T00:00:00Z'', message = ''Update'' \<rparr>"

definition example_change :: "string \<Rightarrow> file_change" where
  "example_change fn =
     \<lparr> filename = fn, status = ''modified'', additions = 1, deletions = 1, patch = [] \<rparr>"

definition example_world ::
  "string \<Rightarrow> file_entry list option \<Rightarrow> error + latest_commit list
     \<Rightarrow> error + file_change list \<Rightarrow> world" where
  "example_world recorded fs latest diff =
     \<lparr> path_join = example_join,
       root = Entries [DirEnt ''app'' (Entries [FileEnt ''metadata.json''])],
       readMetadata = (\<lambda>f. Inr (example_metadata recorded fs)),
       listCommits = (\<lambda>ownr rpo p. latest),
       compareCommits = (\<lambda>ownr rpo b h. diff),
       DETAILED_OUTPUT = False,
       ONLY_SHOW_UPDATES = False \<rparr>"

definition initial_state :: state where
  "initial_state = \<lparr> totalChecked = 0, updatesAvailable = 0, errors = 0, events = [] \<rparr>"

text \<open>Scenario 1: the recorded revision is the latest one.\<close>

definition world_same_revision :: world where
  "world_same_revision =
     example_world ''abc123'' (Some [FileString ''lib/x.js''])
       (Inr [example_commit ''abc123'']) (Inr [])"

text \<open>Scenario 2: a new revision that changes the tracked file.\<close>

definition world_tracked_change :: world where
  "world_tracked_change =
     example_world ''abc123'' (Some [FileString ''lib/x.js''])
       (Inr [example_commit ''def456'']) (Inr [example_change ''lib/x.js''])"

text \<open>Scenario 3: a new revision that changes only an unrelated file.\<close>

definition world_unrelated_change :: world where
  "world_unrelated_change =
     example_world ''abc123'' (Some [FileString ''lib/x.js''])
       (Inr [example_commit ''def456'']) (Inr [example_change ''README.md''])"

text \<open>Scenario 4: a new revision and no \<^verbatim>\<open>files\<close> property.\<close>

definition world_files_omitted :: world where
  "world_files_omitted =
     example_world ''abc123'' None (Inr [example_commit ''def456'']) (Inr [])"

text \<open>The revision query fails, answers an empty list; the root cannot be read.\<close>

definition world_fetch_fails :: world where
  "world_fetch_fails =
     example_world ''abc123'' (Some [FileString ''lib/x.js'']) (Inl (Error ''Not Found''))
       (Inr [])"

definition world_no_commits :: world where
  "world_no_commits =
     example_world ''abc123'' (Some [FileString ''lib/x.js'']) (Inr []) (Inr [])"

definition world_missing_root :: world where
  "world_missing_root = world_same_revision \<lparr> root := Unreadable (Error ''ENOENT'') \<rparr>"

text \<open>A comparison of strings by code units, and two categories, for the generator.\<close>

fun compare_code_units :: "string \<Rightarrow> string \<Rightarrow> int" where
  "compare_code_units [] [] = 0"
| "compare_code_units [] (y # ys) = - 1"
| "compare_code_units (x # xs) [] = 1"
| "compare_code_units (x # xs) (y # ys) =
     (if (of_char x :: nat) < of_char y then - 1
      else if (of_char y :: nat) < of_char x then 1
      else compare_code_units xs ys)"

text \<open>
  A stand-in for the host's printing of numbers, right on the integers below
  $10^{21}$ in magnitude and on the values that are not finite.
\<close>

function decimal :: "nat \<Rightarrow> string" where
  "decimal n = (if n < 10 then [char_of (48 + n)] else decimal (n div 10) @ [char_of (48 + n mod 10)])"
  by pat_completeness auto
termination
  by (relation "measure id") auto

declare decimal.simps [simp del]

fun example_number_to_string :: "js_number \<Rightarrow> string" where
  "example_number_to_string (Finite n) =
     (if n < 0 then ''-'' @ decimal (nat (- n)) else decimal (nat n))"
| "example_number_to_string PosInfinity = ''Infinity''"
| "example_number_to_string NegInfinity = ''-Infinity''"
| "example_number_to_string NaN = ''NaN''"

definition example_timestamp :: "string \<Rightarrow> js_number" where
  "example_timestamp slug = Finite 1700000000"

definition example_categories :: "category list" where
  "example_categories =
     [\<lparr> name_cat = ''Games'', slug_cat = ''games'', count_cat = JsNumber (Finite 3),
        filePath = ''category-games.json'' \<rparr>,
      \<lparr> name_cat = ''Audio'', slug_cat = ''audio'', count_cat = JsNumber (Finite 2),
        filePath = ''category-audio.json'' \<rparr>]"

text \<open>Two categories whose counts are the doubles $2^{53}$ and 1.\<close>

definition large_categories :: "category list" where
  "large_categories =
     [\<lparr> name_cat = ''Games'', slug_cat = ''games'',
        count_cat = JsNumber (Finite 9007199254740992),
        filePath = ''category-games.json'' \<rparr>,
      \<lparr> name_cat = ''Audio'', slug_cat = ''audio'', count_cat = JsNumber (Finite 1),
        filePath = ''category-audio.json'' \<rparr>]"

section \<open>Properties of the helpers\<close>

lemmas body_defs = loop_body_def check_changes_def catch_block_def emit_def console_log_def
  delay_def verdict_def emitted_def Let_def

lemmas example_defs = example_world_def example_metadata_def example_commit_def
  example_change_def example_join_def example_file_def initial_state_def

lemmas run_defs = body_defs getLatestCommit_def getFileChanges_def trackedFilePaths_def
  path_or_slash_def replace_backslashes_def isRelevant_def startsWith_slash_def slice1_def
  first_line_def example_defs

lemma includes_str_sublist: "includes_str s t \<longleftrightarrow> sublist t s"
  by (induction s) (simp_all add: sublist_Cons_right)

lemma normalized_track_path:
  "(if startsWith_slash p then slice1 p else p) = spec_strip_leading_slash p"
  by (cases p) (simp_all add: startsWith_slash_def slice1_def spec_strip_leading_slash_def)

lemma isRelevant_spec: "isRelevant filePaths file = spec_relevant filePaths file"
  by (simp add: isRelevant_def spec_relevant_def list_ex_iff normalized_track_path
        includes_str_sublist Let_def)

lemma copy_file_change:
  "map (\<lambda>file. \<lparr> filename = filename file, status = status file,
                  additions = additions file, deletions = deletions file,
                  patch = patch file \<rparr>) xs = xs"
  by (induction xs) simp_all

lemma getLatestCommit_no_compare:
  "\<not> list_ex is_compare_call (snd (getLatestCommit w a b c))"
  by (simp add: getLatestCommit_def is_compare_call_def Let_def
        split: sum.splits error.splits list.splits)

lemma getLatestCommit_no_delay:
  "\<not> list_ex is_delay (snd (getLatestCommit w a b c))"
  by (simp add: getLatestCommit_def is_delay_def Let_def
        split: sum.splits error.splits list.splits)

lemma getFileChanges_no_delay:
  "\<not> list_ex is_delay (snd (getFileChanges w a b c d ps))"
  by (simp add: getFileChanges_def is_delay_def Let_def split: sum.splits error.splits)

lemma check_changes_events:
  "\<exists>pre. events (check_changes w m lc ps s) = events s @ pre \<and> \<not> list_ex is_delay pre"
  using getFileChanges_no_delay [of w "owner m" "repo m" "commit m" "sha lc" ps]
  by (cases "getFileChanges w (owner m) (repo m) (commit m) (sha lc) ps")
     (auto simp add: check_changes_def emit_def console_log_def Let_def is_delay_def
        list_ex_iff split: option.splits)

subsection \<open>The counters\<close>

lemma loop_body_totalChecked: "totalChecked (loop_body w f s) = totalChecked s + 1"
  by (simp add: body_defs split: sum.splits option.splits prod.splits error.splits)

lemma loop_body_updatesAvailable:
  "updatesAvailable (loop_body w f s) =
     updatesAvailable s + (if file_verdict w f = UpdateAvailable then 1 else 0)"
  by (simp add: file_verdict_def body_defs
        split: sum.splits option.splits prod.splits error.splits)

lemma loop_body_errors:
  "errors (loop_body w f s) = errors s + (if file_verdict w f = ErrorVerdict then 1 else 0)"
  by (simp add: file_verdict_def body_defs
        split: sum.splits option.splits prod.splits error.splits)

lemma verdict_file_verdict: "verdict s (loop_body w f s) = file_verdict w f"
  by (cases "file_verdict w f")
     (simp_all add: verdict_def [of s] loop_body_updatesAvailable loop_body_errors)

lemma main_loop_totalChecked:
  "totalChecked (main_loop w fs s) = totalChecked s + int (length fs)"
  by (induction fs arbitrary: s) (simp_all add: loop_body_totalChecked)

lemma main_loop_updatesAvailable:
  "updatesAvailable (main_loop w fs s) =
     updatesAvailable s + int (length (filter (\<lambda>f. file_verdict w f = UpdateAvailable) fs))"
  by (induction fs arbitrary: s) (simp_all add: loop_body_updatesAvailable)

lemma main_loop_errors:
  "errors (main_loop w fs s) =
     errors s + int (length (filter (\<lambda>f. file_verdict w f = ErrorVerdict) fs))"
  by (induction fs arbitrary: s) (simp_all add: loop_body_errors)

lemma verdict_partition:
  "length fs =
     length (filter (\<lambda>f. file_verdict w f = UpdateAvailable) fs) +
     length (filter (\<lambda>f. file_verdict w f = ErrorVerdict) fs) +
     length (filter (\<lambda>f. file_verdict w f = UpToDate) fs)"
proof (induction fs)
  case Nil
  show ?case by simp
next
  case (Cons f fs)
  then show ?case by (cases "file_verdict w f") simp_all
qed

lemma main_not_rejected:
  "findMetadataFiles w ''./repositories'' = Inr fs \<Longrightarrow> snd (main w) \<noteq> Rejected err"
  by (simp add: main_def Let_def)

subsection \<open>Sorting\<close>

lemma set_insert_sorted: "set (insert_sorted cmp x xs) = insert x (set xs)"
  by (induction xs) auto

lemma length_insert_sorted: "length (insert_sorted cmp x xs) = Suc (length xs)"
  by (induction xs) auto

lemma sorted_insert_sorted:
  assumes "consistent_comparator cmp" and "sorted_wrt (\<lambda>a b. cmp a b \<le> 0) xs"
  shows "sorted_wrt (\<lambda>a b. cmp a b \<le> 0) (insert_sorted cmp x xs)"
  using assms(2)
proof (induction xs)
  case Nil
  show ?case by simp
next
  case (Cons y ys)
  from assms(1) have tot: "\<And>a b. cmp a b \<le> 0 \<or> cmp b a \<le> 0"
    and tr: "\<And>a b c. cmp a b \<le> 0 \<Longrightarrow> cmp b c \<le> 0 \<Longrightarrow> cmp a c \<le> 0"
    unfolding consistent_comparator_def by blast+
  show ?case
  proof (cases "cmp x y \<le> 0")
    case True
    with Cons.prems tr show ?thesis by auto
  next
    case False
    with tot have "cmp y x \<le> 0" by blast
    with Cons False show ?thesis by (auto simp: set_insert_sorted)
  qed
qed

lemma sorted_array_sort:
  "consistent_comparator cmp \<Longrightarrow> sorted_wrt (\<lambda>a b. cmp a b \<le> 0) (array_sort cmp xs)"
  unfolding array_sort_def by (induction xs) (simp_all add: sorted_insert_sorted)

lemma length_array_sort: "length (array_sort cmp xs) = length xs"
  unfolding array_sort_def by (induction xs) (simp_all add: length_insert_sorted)

lemma set_array_sort: "set (array_sort cmp xs) = set xs"
  unfolding array_sort_def by (induction xs) (simp_all add: set_insert_sorted)

lemma consistent_comparator_on:
  "consistent_comparator cmp \<Longrightarrow> consistent_comparator (\<lambda>a b. cmp (f a) (f b))"
  unfolding consistent_comparator_def by blast

lemma sum_list_insert_sorted:
  "sum_list (map f (insert_sorted cmp x xs)) = (f x :: int) + sum_list (map f xs)"
  by (induction xs) auto

lemma sum_list_array_sort: "sum_list (map f (array_sort cmp xs)) = (sum_list (map f xs) :: int)"
  unfolding array_sort_def by (induction xs) (simp_all add: sum_list_insert_sorted)

lemma round_to_double_exact: "\<bar>n\<bar> < 9007199254740992 \<Longrightarrow> round_to_double n = Finite n"
  by (simp add: round_to_double_def)

lemma is_count_value: "is_count v \<Longrightarrow> v = JsNumber (Finite (count_value v)) \<and> 0 \<le> count_value v"
  by (auto simp: is_count_def count_value_def split: js_value.splits js_number.splits)

lemma sum_counts_nonneg:
  "\<forall>c \<in> set xs. is_count (count_ts c) \<Longrightarrow> 0 \<le> sum_list (map (\<lambda>c. count_value (count_ts c)) xs)"
  by (induction xs) (auto dest: is_count_value)

lemma foldl_js_plus:
  assumes "\<forall>c \<in> set xs. is_count (count_ts c)"
    and "0 \<le> a"
    and "a + sum_list (map (\<lambda>c. count_value (count_ts c)) xs) < 9007199254740992"
  shows "foldl (\<lambda>sum cat. js_plus numberToString sum (count_ts cat)) (JsNumber (Finite a)) xs
           = JsNumber (Finite (a + sum_list (map (\<lambda>c. count_value (count_ts c)) xs)))"
  using assms
proof (induction xs arbitrary: a)
  case Nil
  then show ?case by simp
next
  case (Cons c cs)
  from Cons.prems(1) have c: "count_ts c = JsNumber (Finite (count_value (count_ts c)))"
    and nn: "0 \<le> count_value (count_ts c)"
    using is_count_value [of "count_ts c"] by auto
  from Cons.prems(1) have rest: "0 \<le> sum_list (map (\<lambda>c. count_value (count_ts c)) cs)"
    by (intro sum_counts_nonneg) simp
  let ?a' = "a + count_value (count_ts c)"
  from Cons.prems(2,3) nn rest have small: "\<bar>?a'\<bar> < 9007199254740992"
    by simp
  have step: "js_plus numberToString (JsNumber (Finite a)) (count_ts c) = JsNumber (Finite ?a')"
    by (subst c) (simp add: js_plus_def round_to_double_exact [OF small])
  have "foldl (\<lambda>sum cat. js_plus numberToString sum (count_ts cat)) (JsNumber (Finite ?a')) cs
          = JsNumber (Finite (?a' + sum_list (map (\<lambda>c. count_value (count_ts c)) cs)))"
    using Cons.prems nn by (intro Cons.IH) (simp_all add: add.assoc)
  then show ?case
    by (simp add: step add.assoc)
qed

lemma compare_code_units_total:
  "compare_code_units a b \<le> 0 \<or> compare_code_units b a \<le> 0"
  by (induction a b rule: compare_code_units.induct) auto

lemma compare_code_units_trans:
  "compare_code_units a b \<le> 0 \<Longrightarrow> compare_code_units b c \<le> 0
     \<Longrightarrow> compare_code_units a c \<le> 0"
proof (induction a b arbitrary: c rule: compare_code_units.induct)
  case 1
  then show ?case by simp
next
  case (2 y ys)
  then show ?case by (cases c) simp_all
next
  case (3 x xs)
  then show ?case by simp
next
  case (4 x xs y ys)
  show ?case
  proof (cases c)
    case Nil
    with 4 show ?thesis by simp
  next
    case (Cons z zs)
    from 4(2) have xy: "(of_char x :: nat) \<le> of_char y"
      by (simp split: if_splits)
    from 4(3) Cons have yz: "(of_char y :: nat) \<le> of_char z"
      by (simp split: if_splits)
    show ?thesis
    proof (cases "(of_char x :: nat) < of_char z")
      case True
      with Cons show ?thesis by simp
    next
      case False
      with xy yz have "(of_char x :: nat) = of_char y" "(of_char y :: nat) = of_char z"
        by linarith+
      with 4 Cons show ?thesis by simp
    qed
  qed
qed

lemma consistent_compare_code_units: "consistent_comparator compare_code_units"
  unfolding consistent_comparator_def
  using compare_code_units_total compare_code_units_trans by blast

subsection \<open>The example runs\<close>

lemma example_scan:
  "findMetadataFiles (example_world recorded fs latest diff) ''./repositories''
     = Inr [example_file]"
  by (simp add: findMetadataFiles_def example_defs)

lemma example_tracked:
  "trackedFilePaths (example_world recorded (Some [FileString ''lib/x.js'']) latest diff)
     (example_metadata recorded (Some [FileString ''lib/x.js''])) = Inr [''/lib/x.js'']"
  by (simp add: trackedFilePaths_def example_defs path_or_slash_def replace_backslashes_def)

section \<open>The claims\<close>

text \<open>
  C1. For a declaration with a non-empty tracked-path list and a revision mismatch, the
  verdict is update-available if and only if the change-relevance filter reports at
  least one relevant change; when the filter returns null or reports zero relevant
  changes, the verdict is up-to-date.
\<close>

theorem relevance_decides:
  assumes "readMetadata w f = Inr m"
    and "fst (getLatestCommit w (owner m) (repo m) (path m)) = Some lc"
    and "commit m \<noteq> sha lc"
    and "trackedFilePaths w m = Inr filePaths"
    and "filePaths \<noteq> []"
  shows "(verdict s (loop_body w f s) = UpdateAvailable \<longleftrightarrow>
            (\<exists>ch. fst (getFileChanges w (owner m) (repo m) (commit m) (sha lc) filePaths)
                     = Some ch \<and> 1 \<le> relevantChanges ch)) \<and>
         (fst (getFileChanges w (owner m) (repo m) (commit m) (sha lc) filePaths) = None \<or>
          (\<exists>ch. fst (getFileChanges w (owner m) (repo m) (commit m) (sha lc) filePaths)
                     = Some ch \<and> relevantChanges ch = 0)
          \<longrightarrow> verdict s (loop_body w f s) = UpToDate)"
  using assms
  by (cases "getLatestCommit w (owner m) (repo m) (path m)";
      cases "getFileChanges w (owner m) (repo m) (commit m) (sha lc) filePaths")
     (auto simp add: body_defs split: option.splits)

theorem relevance_decides_witness:
  "trackedFilePaths world_tracked_change
      (example_metadata ''abc123'' (Some [FileString ''lib/x.js''])) = Inr [''/lib/x.js''] \<and>
   fst (getFileChanges world_tracked_change ''octo'' ''app'' ''abc123'' ''def456''
          [''/lib/x.js''])
     = Some \<lparr> totalChanges = 1, relevantChanges = 1, files = [example_change ''lib/x.js''] \<rparr> \<and>
   verdict initial_state (loop_body world_tracked_change example_file initial_state)
     = UpdateAvailable \<and>
   fst (getFileChanges world_unrelated_change ''octo'' ''app'' ''abc123'' ''def456''
          [''/lib/x.js''])
     = Some \<lparr> totalChanges = 1, relevantChanges = 0, files = [] \<rparr> \<and>
   verdict initial_state (loop_body world_unrelated_change example_file initial_state)
     = UpToDate"
proof -
  let ?m = "example_metadata ''abc123'' (Some [FileString ''lib/x.js''])"
  let ?lc = "example_commit ''def456''"
  have r2: "readMetadata world_tracked_change example_file = Inr ?m"
    and r3: "readMetadata world_unrelated_change example_file = Inr ?m"
    by (simp_all add: world_tracked_change_def world_unrelated_change_def example_world_def)
  have l2: "fst (getLatestCommit world_tracked_change (owner ?m) (repo ?m) (path ?m))
              = Some ?lc"
    and l3: "fst (getLatestCommit world_unrelated_change (owner ?m) (repo ?m) (path ?m))
              = Some ?lc"
    by (simp_all add: getLatestCommit_def world_tracked_change_def
          world_unrelated_change_def example_world_def)
  have ne: "commit ?m \<noteq> sha ?lc"
    by (simp add: example_metadata_def example_commit_def)
  have t2: "trackedFilePaths world_tracked_change ?m = Inr [''/lib/x.js'']"
    and t3: "trackedFilePaths world_unrelated_change ?m = Inr [''/lib/x.js'']"
    unfolding world_tracked_change_def world_unrelated_change_def
    by (rule example_tracked)+
  have nonempty: "[''/lib/x.js''] \<noteq> []"
    by simp
  have g2: "fst (getFileChanges world_tracked_change ''octo'' ''app'' ''abc123'' ''def456''
                   [''/lib/x.js''])
     = Some \<lparr> totalChanges = 1, relevantChanges = 1, files = [example_change ''lib/x.js''] \<rparr>"
    by (simp add: getFileChanges_def world_tracked_change_def example_world_def
          example_change_def isRelevant_def startsWith_slash_def slice1_def)
  have g3: "fst (getFileChanges world_unrelated_change ''octo'' ''app'' ''abc123'' ''def456''
                   [''/lib/x.js''])
     = Some \<lparr> totalChanges = 1, relevantChanges = 0, files = [] \<rparr>"
    by (simp add: getFileChanges_def world_unrelated_change_def example_world_def
          example_change_def isRelevant_def startsWith_slash_def slice1_def)
  show ?thesis
    using relevance_decides [OF r2 l2 ne t2 nonempty, of initial_state]
      relevance_decides [OF r3 l3 ne t3 nonempty, of initial_state] t2 g2 g3
    by (simp add: example_metadata_def example_commit_def)
qed

text \<open>
  C2. For a declaration whose recorded revision equals the fetched latest revision, the
  verdict is up-to-date and no revision-comparison call is made: the declaration is
  counted as checked, neither as an update nor as an error, the line "Up to date" is
  printed unless only updates are shown, and the iteration consists of the basic
  lines, the revision query, the lines of the latest revision, that verdict line and
  the delay.
\<close>

theorem revision_equality_short_circuits:
  assumes "readMetadata w f = Inr m"
    and "fst (getLatestCommit w (owner m) (repo m) (path m)) = Some lc"
    and "commit m = sha lc"
  shows "verdict s (loop_body w f s) = UpToDate \<and>
         \<not> list_ex is_compare_call (emitted s (loop_body w f s)) \<and>
         totalChecked (loop_body w f s) = totalChecked s + 1 \<and>
         updatesAvailable (loop_body w f s) = updatesAvailable s \<and>
         errors (loop_body w f s) = errors s \<and>
         (\<not> ONLY_SHOW_UPDATES w \<longrightarrow>
            ConsoleLog UpToDateLine \<in> set (emitted s (loop_body w f s))) \<and>
         emitted s (loop_body w f s) =
           (if ONLY_SHOW_UPDATES w then []
            else map ConsoleLog
                   [Checking (name m) (owner m) (repo m), RepositoryUrl (owner m) (repo m),
                    CurrentCommit (commit m), PathLine (path_or_slash m)]) @
           snd (getLatestCommit w (owner m) (repo m) (path m)) @
           (if ONLY_SHOW_UPDATES w then []
            else map ConsoleLog
                   [LatestCommit (sha lc), LatestCommitDate (date lc),
                    LatestCommitMessage (first_line (message lc)), UpToDateLine]) @
           [SetTimeout 100]"
  using assms getLatestCommit_no_compare [of w "owner m" "repo m" "path m"]
  by (cases "getLatestCommit w (owner m) (repo m) (path m)")
     (simp add: body_defs is_compare_call_def)

theorem revision_equality_short_circuits_witness:
  "readMetadata world_same_revision example_file
     = Inr (example_metadata ''abc123'' (Some [FileString ''lib/x.js''])) \<and>
   fst (getLatestCommit world_same_revision ''octo'' ''app'' None)
     = Some (example_commit ''abc123'') \<and>
   verdict initial_state (loop_body world_same_revision example_file initial_state)
     = UpToDate \<and>
   \<not> list_ex is_compare_call
        (emitted initial_state (loop_body world_same_revision example_file initial_state)) \<and>
   totalChecked (loop_body world_same_revision example_file initial_state) = 1 \<and>
   emitted initial_state (loop_body world_same_revision example_file initial_state) =
     [ConsoleLog (Checking ''app'' ''octo'' ''app''),
      ConsoleLog (RepositoryUrl ''octo'' ''app''),
      ConsoleLog (CurrentCommit ''abc123''),
      ConsoleLog (PathLine ''/''),
      ListCommitsCall ''octo'' ''app'' [],
      ConsoleLog (LatestCommit ''abc123''),
      ConsoleLog (LatestCommitDate ''2025-01-01T00:00:00Z''),
      ConsoleLog (LatestCommitMessage ''Update''),
      ConsoleLog UpToDateLine,
      SetTimeout 100]"
proof -
  let ?m = "example_metadata ''abc123'' (Some [FileString ''lib/x.js''])"
  let ?lc = "example_commit ''abc123''"
  have r: "readMetadata world_same_revision example_file = Inr ?m"
    by (simp add: world_same_revision_def example_world_def)
  have l: "fst (getLatestCommit world_same_revision (owner ?m) (repo ?m) (path ?m)) = Some ?lc"
    by (simp add: getLatestCommit_def world_same_revision_def example_world_def)
  have eq: "commit ?m = sha ?lc"
    by (simp add: example_metadata_def example_commit_def)
  have o: "\<not> ONLY_SHOW_UPDATES world_same_revision"
    by (simp add: world_same_revision_def example_world_def)
  have g: "snd (getLatestCommit world_same_revision (owner ?m) (repo ?m) (path ?m))
             = [ListCommitsCall ''octo'' ''app'' []]"
    by (simp add: getLatestCommit_def world_same_revision_def example_world_def
          example_metadata_def)
  have t0: "totalChecked initial_state = 0"
    by (simp add: initial_state_def)
  show ?thesis
    using revision_equality_short_circuits [OF r l eq, of initial_state] r l o g t0
    by (simp add: example_metadata_def example_commit_def path_or_slash_def
          first_line_def is_compare_call_def)
qed

text \<open>
  C3. For a declaration whose tracked-path list is empty (also when the \<^verbatim>\<open>files\<close>
  property is omitted) and whose recorded revision differs from the latest revision,
  the verdict is update-available and no revision-comparison call is made.
\<close>

theorem empty_tracked_paths:
  assumes "readMetadata w f = Inr m"
    and "fst (getLatestCommit w (owner m) (repo m) (path m)) = Some lc"
    and "commit m \<noteq> sha lc"
    and "tracked m = None \<or> trackedFilePaths w m = Inr []"
  shows "verdict s (loop_body w f s) = UpdateAvailable \<and>
         \<not> list_ex is_compare_call (emitted s (loop_body w f s))"
proof -
  from assms(4) have "trackedFilePaths w m = Inr []"
    by (auto simp: trackedFilePaths_def)
  with assms(1-3) getLatestCommit_no_compare [of w "owner m" "repo m" "path m"]
  show ?thesis
    by (cases "getLatestCommit w (owner m) (repo m) (path m)")
       (simp add: body_defs is_compare_call_def)
qed

theorem empty_tracked_paths_witness:
  "readMetadata world_files_omitted example_file = Inr (example_metadata ''abc123'' None) \<and>
   fst (getLatestCommit world_files_omitted ''octo'' ''app'' None)
     = Some (example_commit ''def456'') \<and>
   verdict initial_state (loop_body world_files_omitted example_file initial_state)
     = UpdateAvailable \<and>
   \<not> list_ex is_compare_call
        (emitted initial_state (loop_body world_files_omitted example_file initial_state))"
proof -
  let ?m = "example_metadata ''abc123'' None"
  let ?lc = "example_commit ''def456''"
  have r: "readMetadata world_files_omitted example_file = Inr ?m"
    by (simp add: world_files_omitted_def example_world_def)
  have l: "fst (getLatestCommit world_files_omitted (owner ?m) (repo ?m) (path ?m)) = Some ?lc"
    by (simp add: getLatestCommit_def world_files_omitted_def example_world_def)
  have ne: "commit ?m \<noteq> sha ?lc"
    by (simp add: example_metadata_def example_commit_def)
  have t: "tracked ?m = None \<or> trackedFilePaths world_files_omitted ?m = Inr []"
    by (simp add: example_metadata_def)
  show ?thesis
    using empty_tracked_paths [OF r l ne t, of initial_state] r l
    by (simp add: example_metadata_def)
qed

text \<open>
  C4. The change-relevance filter classifies a changed file as relevant exactly when,
  for some tracked path, after stripping a single leading slash from the tracked path,
  the changed file's path contains the tracked path as a substring or the tracked path
  contains the changed file's path as a substring; the filter returns the changed files
  so classified and their number. In particular the tracked path
  \<^verbatim>\<open>src/app.json\<close> matches the changed file \<^verbatim>\<open>packages/foo/src/app.json\<close>.
\<close>

theorem relevance_filter:
  "(isRelevant filePaths file \<longleftrightarrow>
      (\<exists>trackPath \<in> set filePaths.
         sublist (spec_strip_leading_slash trackPath) (filename file) \<or>
         sublist (filename file) (spec_strip_leading_slash trackPath))) \<and>
   (compareCommits w ownr rpo old new = Inr fs \<longrightarrow>
      fst (getFileChanges w ownr rpo old new filePaths) =
        Some \<lparr> totalChanges = length fs,
               relevantChanges = length (filter (spec_relevant filePaths) fs),
               files = filter (spec_relevant filePaths) fs \<rparr>) \<and>
   isRelevant [''src/app.json'']
     \<lparr> filename = ''packages/foo/src/app.json'', status = st, additions = a,
       deletions = d, patch = p \<rparr>"
proof (intro conjI impI)
  show "isRelevant filePaths file \<longleftrightarrow>
      (\<exists>trackPath \<in> set filePaths.
         sublist (spec_strip_leading_slash trackPath) (filename file) \<or>
         sublist (filename file) (spec_strip_leading_slash trackPath))"
    by (simp add: isRelevant_spec spec_relevant_def)
next
  assume "compareCommits w ownr rpo old new = Inr fs"
  then show "fst (getFileChanges w ownr rpo old new filePaths) =
        Some \<lparr> totalChanges = length fs,
               relevantChanges = length (filter (spec_relevant filePaths) fs),
               files = filter (spec_relevant filePaths) fs \<rparr>"
    by (simp add: getFileChanges_def Let_def copy_file_change isRelevant_spec [abs_def])
next
  show "isRelevant [''src/app.json'']
     \<lparr> filename = ''packages/foo/src/app.json'', status = st, additions = a,
       deletions = d, patch = p \<rparr>"
    by (simp add: isRelevant_def startsWith_slash_def)
qed

theorem relevance_filter_witness:
  "compareCommits world_unrelated_change ''octo'' ''app'' ''abc123'' ''def456''
     = Inr [example_change ''README.md''] \<and>
   sublist ''lib/x.js'' ''vendor/lib/x.js'' \<and>
   isRelevant [''/lib/x.js''] (example_change ''vendor/lib/x.js'') \<and>
   sublist ''lib'' ''lib/x.js'' \<and>
   isRelevant [''/lib/x.js''] (example_change ''lib'') \<and>
   \<not> isRelevant [''/lib/x.js''] (example_change ''README.md'') \<and>
   fst (getFileChanges world_unrelated_change ''octo'' ''app'' ''abc123'' ''def456''
          [''/lib/x.js''])
     = Some \<lparr> totalChanges = 1, relevantChanges = 0, files = [] \<rparr>"
proof -
  have c: "compareCommits world_unrelated_change ''octo'' ''app'' ''abc123'' ''def456''
             = Inr [example_change ''README.md'']"
    by (simp add: world_unrelated_change_def example_world_def)
  have s1: "sublist ''lib/x.js'' ''vendor/lib/x.js''"
    by (simp add: sublist_Cons_right)
  have s2: "sublist ''lib'' ''lib/x.js''"
    by (simp add: sublist_Cons_right)
  have s3: "\<not> sublist ''lib/x.js'' ''README.md''" "\<not> sublist ''README.md'' ''lib/x.js''"
    by (simp_all add: sublist_Cons_right)
  note r = relevance_filter [where filePaths = "[''/lib/x.js'']"
      and w = world_unrelated_change and ownr = "''octo''" and rpo = "''app''"
      and old = "''abc123''" and new = "''def456''"
      and fs = "[example_change ''README.md'']"]
  show ?thesis
    using c s1 s2 s3 r [of "example_change ''vendor/lib/x.js''"]
      r [of "example_change ''lib''"]
      r [of "example_change ''README.md''"]
    by (simp add: spec_strip_leading_slash_def spec_relevant_def example_change_def)
qed

text \<open>
  C5. For every run of the detector that prints a summary (every run whose directory
  scan succeeds), the printed counters satisfy checked = available + errors +
  up-to-date, where up-to-date is the number printed on the last summary line. Each
  printed number is moreover the number of declarations with that verdict.
\<close>

theorem summary_counters:
  assumes "findMetadataFiles w ''./repositories'' = Inr fs"
  shows "\<exists>pre c a e u fin.
           events (fst (main w)) =
             pre @ map ConsoleLog [SummaryHeader, SummaryChecked c, SummaryUpdates a,
                                   SummaryErrors e, SummaryUpToDate u] @ [fin] \<and>
           c = a + e + u \<and>
           c = int (length fs) \<and>
           a = int (length (filter (\<lambda>f. file_verdict w f = UpdateAvailable) fs)) \<and>
           e = int (length (filter (\<lambda>f. file_verdict w f = ErrorVerdict) fs)) \<and>
           u = int (length (filter (\<lambda>f. file_verdict w f = UpToDate) fs))"
proof -
  define s1 where "s1 = console_log [Found (length fs)]
      \<lparr> totalChecked = 0, updatesAvailable = 0, errors = 0, events = [ConsoleLog Starting] \<rparr>"
  define s2 where "s2 = main_loop w fs s1"
  define fin where "fin =
      (if updatesAvailable s2 > 0 then ConsoleLog (HaveUpdates (updatesAvailable s2))
       else ConsoleLog AllUpToDate)"
  have ev: "events (fst (main w)) =
      events s2 @ map ConsoleLog [SummaryHeader, SummaryChecked (totalChecked s2),
         SummaryUpdates (updatesAvailable s2), SummaryErrors (errors s2),
         SummaryUpToDate (totalChecked s2 - updatesAvailable s2 - errors s2)] @ [fin]"
    using assms by (simp add: main_def s1_def s2_def fin_def console_log_def emit_def Let_def)
  have c: "totalChecked s2 = int (length fs)"
    by (simp add: s2_def s1_def main_loop_totalChecked console_log_def emit_def)
  have a: "updatesAvailable s2 =
      int (length (filter (\<lambda>f. file_verdict w f = UpdateAvailable) fs))"
    by (simp add: s2_def s1_def main_loop_updatesAvailable console_log_def emit_def)
  have e: "errors s2 = int (length (filter (\<lambda>f. file_verdict w f = ErrorVerdict) fs))"
    by (simp add: s2_def s1_def main_loop_errors console_log_def emit_def)
  have u: "totalChecked s2 - updatesAvailable s2 - errors s2 =
      int (length (filter (\<lambda>f. file_verdict w f = UpToDate) fs))"
    using verdict_partition [of fs w] by (simp add: c a e)
  show ?thesis
    using ev c a e u by (intro exI conjI) (assumption | simp)+
qed

theorem summary_counters_witness:
  "findMetadataFiles world_tracked_change ''./repositories'' = Inr [example_file] \<and>
   file_verdict world_tracked_change example_file = UpdateAvailable \<and>
   (\<exists>pre fin.
      events (fst (main world_tracked_change)) =
        pre @ map ConsoleLog [SummaryHeader, SummaryChecked 1, SummaryUpdates 1,
                              SummaryErrors 0, SummaryUpToDate 0] @ [fin])"
proof -
  have h: "findMetadataFiles world_tracked_change ''./repositories'' = Inr [example_file]"
    unfolding world_tracked_change_def by (rule example_scan)
  have v: "file_verdict world_tracked_change example_file = UpdateAvailable"
    by (simp add: file_verdict_def world_tracked_change_def run_defs)
  show ?thesis
    using summary_counters [OF h] h v by simp
qed

text \<open>
  C6, as amended. The exit status of the detector is 0 whenever the run completes the
  full declaration scan, however many updates or per-declaration errors occurred.
\<close>

theorem exit_status_after_scan:
  assumes "findMetadataFiles w ''./repositories'' = Inr fs"
  shows "snd (script w) = 0"
  using assms by (simp add: script_def main_def Let_def)

theorem exit_status_after_scan_witness:
  "findMetadataFiles world_fetch_fails ''./repositories'' = Inr [example_file] \<and>
   errors (fst (main world_fetch_fails)) = 1 \<and>
   snd (script world_fetch_fails) = 0"
proof -
  have h: "findMetadataFiles world_fetch_fails ''./repositories'' = Inr [example_file]"
    unfolding world_fetch_fails_def by (rule example_scan)
  have e: "errors (fst (main world_fetch_fails)) = 1"
    using h by (simp add: main_def world_fetch_fails_def run_defs)
  show ?thesis
    using exit_status_after_scan [OF h] h e by simp
qed

text \<open>
  C6 as stated fails where the root directory cannot be read: the exception of
  \<^verbatim>\<open>readdirSync\<close> rejects \<open>main\<close>, the rejection is handled by
  \<^verbatim>\<open>console.error\<close>, and the process ends with status 0.
\<close>

theorem exit_status_failed_scan_counterexample:
  "findMetadataFiles world_missing_root ''./repositories'' = Inl (Error ''ENOENT'') \<and>
   script world_missing_root =
     ([ConsoleLog Starting, ConsoleError (ErrObject (Error ''ENOENT''))], 0)"
  by (simp add: script_def main_def findMetadataFiles_def world_missing_root_def
        world_same_revision_def example_world_def)

text \<open>
  C7. If the latest-revision fetch of a declaration fails, the error is logged and not
  thrown, the declaration is counted as an error, no up-to-date or update-available
  verdict is printed or counted, the loop goes on with the remaining declarations, and
  the run is not aborted.
\<close>

theorem fetch_unavailable:
  assumes "readMetadata w f = Inr m"
    and "listCommits w (owner m) (repo m) (case path m of None \<Rightarrow> [] | Some p \<Rightarrow> p)
           = Inl (Error msg)"
  shows "ConsoleError (ErrFetchingCommits (owner m) (repo m) msg)
           \<in> set (emitted s (loop_body w f s)) \<and>
         verdict s (loop_body w f s) = ErrorVerdict \<and>
         totalChecked (loop_body w f s) = totalChecked s + 1 \<and>
         errors (loop_body w f s) = errors s + 1 \<and>
         updatesAvailable (loop_body w f s) = updatesAvailable s \<and>
         ConsoleLog UpToDateLine \<notin> set (emitted s (loop_body w f s)) \<and>
         ConsoleLog UpToDateNoRelevantLine \<notin> set (emitted s (loop_body w f s)) \<and>
         ConsoleLog UpdateAvailableLine \<notin> set (emitted s (loop_body w f s)) \<and>
         main_loop w (f # rest) s = main_loop w rest (loop_body w f s) \<and>
         totalChecked (main_loop w (f # rest) s) = totalChecked s + 1 + int (length rest) \<and>
         (findMetadataFiles w ''./repositories'' = Inr fs \<longrightarrow> snd (main w) \<noteq> Rejected err)"
proof -
  have body: "loop_body w f s =
      (let s1 = s\<lparr> totalChecked := totalChecked s + 1 \<rparr>;
           s2 = (if \<not> ONLY_SHOW_UPDATES w
                 then console_log
                        [Checking (name m) (owner m) (repo m),
                         RepositoryUrl (owner m) (repo m),
                         CurrentCommit (commit m),
                         PathLine (path_or_slash m)] s1
                 else s1);
           s3 = emit [ListCommitsCall (owner m) (repo m)
                        (case path m of None \<Rightarrow> [] | Some p \<Rightarrow> p),
                      ConsoleError (ErrFetchingCommits (owner m) (repo m) msg)] s2;
           s4 = (if \<not> ONLY_SHOW_UPDATES w then console_log [CouldNotFetch] s3 else s3)
       in s4\<lparr> errors := errors s4 + 1 \<rparr>)"
    using assms by (simp add: loop_body_def getLatestCommit_def Let_def)
  show ?thesis
    by (simp add: body verdict_def emitted_def emit_def console_log_def Let_def
          main_loop_totalChecked main_not_rejected)
qed

theorem fetch_unavailable_witness:
  "readMetadata world_fetch_fails example_file
     = Inr (example_metadata ''abc123'' (Some [FileString ''lib/x.js''])) \<and>
   listCommits world_fetch_fails ''octo'' ''app'' [] = Inl (Error ''Not Found'') \<and>
   findMetadataFiles world_fetch_fails ''./repositories'' = Inr [example_file] \<and>
   ConsoleError (ErrFetchingCommits ''octo'' ''app'' ''Not Found'')
     \<in> set (emitted initial_state (loop_body world_fetch_fails example_file initial_state)) \<and>
   verdict initial_state (loop_body world_fetch_fails example_file initial_state)
     = ErrorVerdict \<and>
   snd (main world_fetch_fails) \<noteq> Rejected (Error ''Not Found'')"
proof -
  let ?m = "example_metadata ''abc123'' (Some [FileString ''lib/x.js''])"
  have r: "readMetadata world_fetch_fails example_file = Inr ?m"
    by (simp add: world_fetch_fails_def example_world_def)
  have l: "listCommits world_fetch_fails (owner ?m) (repo ?m)
             (case path ?m of None \<Rightarrow> [] | Some p \<Rightarrow> p) = Inl (Error ''Not Found'')"
    by (simp add: world_fetch_fails_def example_world_def example_metadata_def)
  have h: "findMetadataFiles world_fetch_fails ''./repositories'' = Inr [example_file]"
    unfolding world_fetch_fails_def by (rule example_scan)
  show ?thesis
    using fetch_unavailable [OF r l, of initial_state "[]" "[example_file]"
        "Error ''Not Found''"] r l h
    by (simp add: example_metadata_def)
qed

text \<open>
  C8, as amended. After the processing of every declaration that ends with an
  up-to-date or an update-available verdict, one fixed delay of 100 ms is performed,
  as the last step before the next declaration.
\<close>

theorem delay_after_verdict:
  assumes "verdict s (loop_body w f s) \<noteq> ErrorVerdict"
  shows "\<exists>pre. emitted s (loop_body w f s) = pre @ [SetTimeout 100] \<and>
               \<not> list_ex is_delay pre"
proof (cases "readMetadata w f")
  case (Inl err)
  with assms show ?thesis
    by (cases err) (simp add: body_defs)
next
  case (Inr m)
  obtain latest evs where g: "getLatestCommit w (owner m) (repo m) (path m) = (latest, evs)"
    by (cases "getLatestCommit w (owner m) (repo m) (path m)")
  have nd: "\<not> list_ex is_delay evs"
    using getLatestCommit_no_delay [of w "owner m" "repo m" "path m"] g by simp
  show ?thesis
  proof (cases latest)
    case None
    with assms Inr g show ?thesis
      by (simp add: body_defs split: if_splits)
  next
    case (Some lc)
    show ?thesis
    proof (cases "commit m = sha lc")
      case True
      with Inr g Some nd show ?thesis
        by (simp add: body_defs is_delay_def list_ex_iff image_iff)
    next
      case False
      show ?thesis
      proof (cases "trackedFilePaths w m")
        case (Inl err)
        with assms \<open>readMetadata w f = Inr m\<close> g Some False show ?thesis
          by (cases err) (simp add: body_defs split: if_splits)
      next
        case (Inr ps)
        define s2 where "s2 =
            (if \<not> ONLY_SHOW_UPDATES w
             then console_log
                    [Checking (name m) (owner m) (repo m), RepositoryUrl (owner m) (repo m),
                     CurrentCommit (commit m), PathLine (path_or_slash m)]
                    (s\<lparr> totalChecked := totalChecked s + 1 \<rparr>)
             else s\<lparr> totalChecked := totalChecked s + 1 \<rparr>)"
        define s4 where "s4 =
            (if \<not> ONLY_SHOW_UPDATES w
             then console_log
                    [LatestCommit (sha lc), LatestCommitDate (date lc),
                     LatestCommitMessage (first_line (message lc))] (emit evs s2)
             else emit evs s2)"
        have body: "loop_body w f s = delay (check_changes w m lc ps s4)"
          using \<open>readMetadata w f = Inr m\<close> g Some False Inr
          by (simp add: loop_body_def Let_def s4_def s2_def)
        obtain pre0 where p0: "events s4 = events s @ pre0" "\<not> list_ex is_delay pre0"
          using nd by (cases "ONLY_SHOW_UPDATES w")
            (simp_all add: s4_def s2_def emit_def console_log_def is_delay_def list_ex_iff
               image_iff)
        obtain pre1 where p1: "events (check_changes w m lc ps s4) = events s4 @ pre1"
            "\<not> list_ex is_delay pre1"
          using check_changes_events by blast
        have "emitted s (loop_body w f s) = (pre0 @ pre1) @ [SetTimeout 100]"
          by (simp add: body delay_def emit_def emitted_def p0 p1)
        moreover have "\<not> list_ex is_delay (pre0 @ pre1)"
          using p0 p1 by (auto simp add: list_ex_iff)
        ultimately show ?thesis by blast
      qed
    qed
  qed
qed

theorem delay_after_verdict_witness:
  "verdict initial_state (loop_body world_unrelated_change example_file initial_state)
     = UpToDate \<and>
   (\<exists>pre. emitted initial_state (loop_body world_unrelated_change example_file initial_state)
            = pre @ [SetTimeout 100] \<and> \<not> list_ex is_delay pre)"
proof -
  have v: "verdict initial_state
             (loop_body world_unrelated_change example_file initial_state) = UpToDate"
    by (simp add: world_unrelated_change_def run_defs)
  then have h: "verdict initial_state
             (loop_body world_unrelated_change example_file initial_state) \<noteq> ErrorVerdict"
    by simp
  show ?thesis
    using delay_after_verdict [OF h] v by simp
qed

text \<open>
  C8 as stated fails for a declaration whose verdict is an error: when the revision
  fetch fails, the iteration ends at \<^verbatim>\<open>continue\<close> and no timer is set.
\<close>

theorem delay_after_error_counterexample:
  "verdict initial_state (loop_body world_fetch_fails example_file initial_state)
     = ErrorVerdict \<and>
   emitted initial_state (loop_body world_fetch_fails example_file initial_state) =
     [ConsoleLog (Checking ''app'' ''octo'' ''app''),
      ConsoleLog (RepositoryUrl ''octo'' ''app''),
      ConsoleLog (CurrentCommit ''abc123''),
      ConsoleLog (PathLine ''/''),
      ListCommitsCall ''octo'' ''app'' [],
      ConsoleError (ErrFetchingCommits ''octo'' ''app'' ''Not Found''),
      ConsoleLog CouldNotFetch] \<and>
   \<not> list_ex is_delay
        (emitted initial_state (loop_body world_fetch_fails example_file initial_state))"
  by (simp add: world_fetch_fails_def run_defs is_delay_def)

text \<open>
  C9. When the revision query succeeds with an empty list, \<open>getLatestCommit\<close> returns
  an absent result, and the declaration is counted as an error and skipped, with no
  up-to-date or update-available verdict and no comparison call: the counters and the
  events are those of a failed fetch, less the error line of the fetcher.
\<close>

theorem empty_revision_list:
  assumes "readMetadata w f = Inr m"
    and "listCommits w (owner m) (repo m) (case path m of None \<Rightarrow> [] | Some p \<Rightarrow> p) = Inr []"
  shows "fst (getLatestCommit w (owner m) (repo m) (path m)) = None \<and>
         verdict s (loop_body w f s) = ErrorVerdict \<and>
         totalChecked (loop_body w f s) = totalChecked s + 1 \<and>
         errors (loop_body w f s) = errors s + 1 \<and>
         updatesAvailable (loop_body w f s) = updatesAvailable s \<and>
         ConsoleLog UpToDateLine \<notin> set (emitted s (loop_body w f s)) \<and>
         ConsoleLog UpToDateNoRelevantLine \<notin> set (emitted s (loop_body w f s)) \<and>
         ConsoleLog UpdateAvailableLine \<notin> set (emitted s (loop_body w f s)) \<and>
         \<not> list_ex is_compare_call (emitted s (loop_body w f s)) \<and>
         (readMetadata w' f = Inr m \<and> ONLY_SHOW_UPDATES w' = ONLY_SHOW_UPDATES w \<and>
          listCommits w' (owner m) (repo m) (case path m of None \<Rightarrow> [] | Some p \<Rightarrow> p)
            = Inl (Error msg)
          \<longrightarrow> totalChecked (loop_body w' f s) = totalChecked (loop_body w f s) \<and>
              errors (loop_body w' f s) = errors (loop_body w f s) \<and>
              updatesAvailable (loop_body w' f s) = updatesAvailable (loop_body w f s) \<and>
              filter (\<lambda>e. e \<noteq> ConsoleError (ErrFetchingCommits (owner m) (repo m) msg))
                (emitted s (loop_body w' f s)) = emitted s (loop_body w f s))"
  using assms
  by (simp add: loop_body_def getLatestCommit_def Let_def verdict_def emitted_def emit_def
        console_log_def is_compare_call_def)

theorem empty_revision_list_witness:
  "readMetadata world_no_commits example_file
     = Inr (example_metadata ''abc123'' (Some [FileString ''lib/x.js''])) \<and>
   listCommits world_no_commits ''octo'' ''app'' [] = Inr [] \<and>
   listCommits world_fetch_fails ''octo'' ''app'' [] = Inl (Error ''Not Found'') \<and>
   fst (getLatestCommit world_no_commits ''octo'' ''app'' None) = None \<and>
   verdict initial_state (loop_body world_no_commits example_file initial_state)
     = ErrorVerdict \<and>
   errors (loop_body world_fetch_fails example_file initial_state)
     = errors (loop_body world_no_commits example_file initial_state)"
proof -
  let ?m = "example_metadata ''abc123'' (Some [FileString ''lib/x.js''])"
  have r: "readMetadata world_no_commits example_file = Inr ?m"
    and r': "readMetadata world_fetch_fails example_file = Inr ?m"
    by (simp_all add: world_no_commits_def world_fetch_fails_def example_world_def)
  have l: "listCommits world_no_commits (owner ?m) (repo ?m)
             (case path ?m of None \<Rightarrow> [] | Some p \<Rightarrow> p) = Inr []"
    and l': "listCommits world_fetch_fails (owner ?m) (repo ?m)
             (case path ?m of None \<Rightarrow> [] | Some p \<Rightarrow> p) = Inl (Error ''Not Found'')"
    by (simp_all add: world_no_commits_def world_fetch_fails_def example_world_def
          example_metadata_def)
  have o: "ONLY_SHOW_UPDATES world_fetch_fails = ONLY_SHOW_UPDATES world_no_commits"
    by (simp add: world_no_commits_def world_fetch_fails_def example_world_def)
  show ?thesis
    using empty_revision_list [OF r l, of initial_state world_fetch_fails "''Not Found''"]
      r r' l l' o
    by (simp add: example_metadata_def)
qed

text \<open>
  C10, as amended. In the index written by the category timestamp generator,
  \<open>totalCategories\<close> is the number of category entries, there is one entry for each
  category read, and the entries are in ascending order of their names under
  \<open>localeCompare\<close> (a consistent comparison); \<open>totalApps\<close> is the sum of the counts
  of the entries whenever every count is a non-negative integer number and the sum is
  below $2^{53}$.
\<close>

theorem categories_index:
  assumes "main_categories localeCompare numberToString getTimestamp cats = Some idx"
  shows "totalCategories idx = length (categories idx) \<and>
         length (categories idx) = length cats \<and>
         (consistent_comparator localeCompare \<longrightarrow>
            sorted_wrt (\<lambda>a b. localeCompare (name_ts a) (name_ts b) \<le> 0) (categories idx)) \<and>
         ((\<forall>c \<in> set cats. is_count (count_cat c)) \<and>
          sum_list (map (\<lambda>c. count_value (count_cat c)) cats) < 9007199254740992 \<longrightarrow>
            totalApps idx =
              JsNumber (Finite (sum_list (map (\<lambda>c. count_value (count_ts c)) (categories idx)))))"
proof -
  define pushed where "pushed = map (\<lambda>category.
      \<lparr> name_ts = name_cat category, slug_ts = slug_cat category,
        count_ts = count_cat category,
        lastUpdated = getTimestamp (slug_cat category) \<rparr>) cats"
  define sorted_cats where
    "sorted_cats = array_sort (\<lambda>a b. localeCompare (name_ts a) (name_ts b)) pushed"
  from assms have idx: "idx = \<lparr> totalCategories = length sorted_cats,
      totalApps = foldl (\<lambda>sum cat. js_plus numberToString sum (count_ts cat))
                    (JsNumber (Finite 0)) sorted_cats,
      categories = sorted_cats \<rparr>"
    by (simp add: main_categories_def Let_def pushed_def sorted_cats_def split: if_splits)
  have len: "length sorted_cats = length cats"
    by (simp add: sorted_cats_def pushed_def length_array_sort)
  have srt: "sorted_wrt (\<lambda>a b. localeCompare (name_ts a) (name_ts b) \<le> 0) sorted_cats"
    if "consistent_comparator localeCompare"
    unfolding sorted_cats_def
    using sorted_array_sort [OF consistent_comparator_on [OF that, of name_ts], of pushed] .
  have total: "foldl (\<lambda>sum cat. js_plus numberToString sum (count_ts cat))
                 (JsNumber (Finite 0)) sorted_cats
               = JsNumber (Finite (sum_list (map (\<lambda>c. count_value (count_ts c)) sorted_cats)))"
    if counts: "\<forall>c \<in> set cats. is_count (count_cat c)"
      and bound: "sum_list (map (\<lambda>c. count_value (count_cat c)) cats) < 9007199254740992"
  proof -
    have same: "sum_list (map (\<lambda>c. count_value (count_ts c)) sorted_cats)
                  = sum_list (map (\<lambda>c. count_value (count_cat c)) cats)"
      by (simp add: sorted_cats_def sum_list_array_sort pushed_def comp_def)
    have all: "\<forall>c \<in> set sorted_cats. is_count (count_ts c)"
      using counts by (auto simp: sorted_cats_def set_array_sort pushed_def)
    show ?thesis
      using foldl_js_plus [OF all, of 0 numberToString] bound same by simp
  qed
  show ?thesis
    using len srt total by (simp add: idx)
qed

theorem categories_index_witness:
  "consistent_comparator compare_code_units \<and>
   is_count (JsNumber (Finite 3)) \<and> is_count (JsNumber (Finite 2)) \<and>
   sum_list (map (\<lambda>c. count_value (count_cat c)) example_categories) < 9007199254740992 \<and>
   main_categories compare_code_units example_number_to_string example_timestamp
       example_categories =
     Some \<lparr> totalCategories = 2, totalApps = JsNumber (Finite 5),
            categories =
              [\<lparr> name_ts = ''Audio'', slug_ts = ''audio'', count_ts = JsNumber (Finite 2),
                 lastUpdated = Finite 1700000000 \<rparr>,
               \<lparr> name_ts = ''Games'', slug_ts = ''games'', count_ts = JsNumber (Finite 3),
                 lastUpdated = Finite 1700000000 \<rparr>] \<rparr> \<and>
   sorted_wrt (\<lambda>a b. compare_code_units (name_ts a) (name_ts b) \<le> 0)
     [\<lparr> name_ts = ''Audio'', slug_ts = ''audio'', count_ts = JsNumber (Finite 2),
        lastUpdated = Finite 1700000000 \<rparr>,
      \<lparr> name_ts = ''Games'', slug_ts = ''games'', count_ts = JsNumber (Finite 3),
        lastUpdated = Finite 1700000000 \<rparr>]"
proof -
  have m: "main_categories compare_code_units example_number_to_string example_timestamp
       example_categories =
     Some \<lparr> totalCategories = 2, totalApps = JsNumber (Finite 5),
            categories =
              [\<lparr> name_ts = ''Audio'', slug_ts = ''audio'', count_ts = JsNumber (Finite 2),
                 lastUpdated = Finite 1700000000 \<rparr>,
               \<lparr> name_ts = ''Games'', slug_ts = ''games'', count_ts = JsNumber (Finite 3),
                 lastUpdated = Finite 1700000000 \<rparr>] \<rparr>"
    by (simp add: main_categories_def example_categories_def array_sort_def
          example_timestamp_def js_plus_def round_to_double_def)
  have c: "\<forall>c \<in> set example_categories. is_count (count_cat c)"
    by (simp add: example_categories_def is_count_def)
  have b: "sum_list (map (\<lambda>c. count_value (count_cat c)) example_categories)
             < 9007199254740992"
    by (simp add: example_categories_def count_value_def)
  show ?thesis
    using categories_index [OF m] consistent_compare_code_units m c b
    by (simp add: example_categories_def)
qed

text \<open>
  C10 as stated fails on the total: the counts are added as JavaScript numbers, so
  for the counts $2^{53}$ and 1 the index holds 9007199254740992, and their sum is
  9007199254740993.
\<close>

theorem categories_total_rounding_counterexample:
  "main_categories compare_code_units example_number_to_string example_timestamp
       large_categories =
     Some \<lparr> totalCategories = 2, totalApps = JsNumber (Finite 9007199254740992),
            categories =
              [\<lparr> name_ts = ''Audio'', slug_ts = ''audio'', count_ts = JsNumber (Finite 1),
                 lastUpdated = Finite 1700000000 \<rparr>,
               \<lparr> name_ts = ''Games'', slug_ts = ''games'',
                 count_ts = JsNumber (Finite 9007199254740992),
                 lastUpdated = Finite 1700000000 \<rparr>] \<rparr> \<and>
   count_value (JsNumber (Finite 1)) + count_value (JsNumber (Finite 9007199254740992))
     = 9007199254740993"
  by (simp add: main_categories_def large_categories_def array_sort_def
        example_timestamp_def js_plus_def round_to_double_def count_value_def
        quantum.simps [of 9007199254740993] quantum.simps [of 4503599627370496])

end
